theory Spec2Isabelle
  imports Complex_Main "HOL-Library.Word"
begin

section \<open>JavaScript values used by \<^verbatim>\<open>scripts/sync-models.js\<close>\<close>

text \<open>
  A JavaScript string is a sequence of UTF-16 code units. ASCII literals of the source are
  written through \<open>ascii\<close>; the Cyrillic literals of the sample data are written as their
  code units.
\<close>

type_synonym jschar = "16 word"
type_synonym jsstring = "jschar list"

definition ascii :: "string \<Rightarrow> jsstring" where
  "ascii s = map of_char s"

text \<open>
  The cells of a spreadsheet row: the row object of the sheet reader answers a header name
  with the text of the cell, and \<^verbatim>\<open>undefined\<close> for a header the sheet does not have.
\<close>

datatype jsval = Undefined | Str jsstring

type_synonym row = "string \<Rightarrow> jsval"

text \<open>Truthiness, \<^verbatim>\<open>a || b\<close>, \<^verbatim>\<open>String(v)\<close>.\<close>

fun truthy :: "jsval \<Rightarrow> bool" where
  "truthy Undefined = False"
| "truthy (Str s) = (s \<noteq> [])"

definition js_or :: "jsval \<Rightarrow> jsval \<Rightarrow> jsval" where
  "js_or a b = (if truthy a then a else b)"

fun String_js :: "jsval \<Rightarrow> jsstring" where
  "String_js Undefined = ascii ''undefined''"
| "String_js (Str s) = s"

text \<open>
  \<^verbatim>\<open>String.prototype.trim\<close> removes the code units of WhiteSpace and LineTerminator
  from both ends.
\<close>

definition is_ws :: "jschar \<Rightarrow> bool" where
  "is_ws c \<longleftrightarrow>
     c = 0x0009 \<or> c = 0x000A \<or> c = 0x000B \<or> c = 0x000C \<or> c = 0x000D \<or> c = 0x0020 \<or>
     c = 0x00A0 \<or> c = 0x1680 \<or> (0x2000 \<le> c \<and> c \<le> 0x200A) \<or>
     c = 0x2028 \<or> c = 0x2029 \<or> c = 0x202F \<or> c = 0x205F \<or> c = 0x3000 \<or> c = 0xFEFF"

definition trim :: "jsstring \<Rightarrow> jsstring" where
  "trim s = rev (dropWhile is_ws (rev (dropWhile is_ws s)))"

text \<open>\<^verbatim>\<open>s.split(',')\<close>: the empty string gives one empty token.\<close>

fun split_comma :: "jsstring \<Rightarrow> jsstring list" where
  "split_comma [] = [[]]"
| "split_comma (c # cs) =
     (if c = 0x002C then [] # split_comma cs
      else (case split_comma cs of
              [] \<Rightarrow> [[c]]
            | t # ts \<Rightarrow> (c # t) # ts))"

text \<open>
  The decimal text of an integral Number, as a template literal inserts it (integers of
  magnitude below \<open>10\<^sup>2\<^sup>1\<close> are printed in full).
\<close>

function decimal :: "nat \<Rightarrow> jsstring" where
  "decimal n = (if n < 10 then [of_nat (48 + n)] else decimal (n div 10) @ [of_nat (48 + n mod 10)])"
  by pat_completeness auto
termination
  by (relation "measure (\<lambda>n. n)") auto

definition Number_toString :: "int \<Rightarrow> jsstring" where
  "Number_toString i = (if i < 0 then 0x002D # decimal (nat (- i)) else decimal (nat i))"

section \<open>Numbers\<close>

text \<open>
  A finite double that is not negative, as a pair \<open>(m, e)\<close> that stands for the value
  \<open>m \<cdot> 2\<^sup>e\<close>. A double has a significand below \<open>2\<^sup>5\<^sup>3\<close> and an exponent from
  \<open>-1074\<close> to \<open>971\<close>; several pairs stand for the same double.
\<close>

type_synonym double = "nat \<times> int"

definition double_value :: "double \<Rightarrow> real" where
  "double_value d =
    (if 0 \<le> snd d then real (fst d) * 2 ^ nat (snd d) else real (fst d) / 2 ^ nat (- snd d))"

definition is_double :: "double \<Rightarrow> bool" where
  "is_double d \<longleftrightarrow> fst d < 2 ^ 53 \<and> - 1074 \<le> snd d \<and> snd d \<le> 971"

fun bit_length :: "nat \<Rightarrow> nat" where
  "bit_length n = (if n = 0 then 0 else Suc (bit_length (n div 2)))"

declare bit_length.simps [simp del]

text \<open>
  The double nearest to the exact value \<open>n \<cdot> 2\<^sup>e\<close>, a tie going to the even
  significand (the rounding of IEEE 754 that every arithmetic operation of the language
  ends with): the \<open>s\<close> lowest bits of \<open>n\<close> are dropped, as many as leave 53 bits and an
  exponent of \<open>-1074\<close> or more, and the rest is rounded up when the dropped bits are more
  than half a unit, or are half a unit and the rest is odd. After a carry the significand
  may be \<open>2\<^sup>5\<^sup>3\<close>, which stands for the double \<open>2\<^sup>5\<^sup>2 \<cdot> 2\<^sup>e\<^sup>+\<^sup>1\<close>. The overflow to
  \<^verbatim>\<open>Infinity\<close> above the largest double is left out: the products taken here are below
  1000.
\<close>

definition round_double :: "nat \<Rightarrow> int \<Rightarrow> double" where
  "round_double n e =
    (let s = max (bit_length n - 53) (nat (- 1074 - e)) in
     if s = 0 then (n, e)
     else (let q = n div 2 ^ s; r = n mod 2 ^ s; half = 2 ^ (s - 1);
               q' = (if half < r \<or> (r = half \<and> odd q) then q + 1 else q)
           in (q', e + int s)))"

text \<open>\<^verbatim>\<open>a * b\<close> on doubles: the exact product, rounded.\<close>

definition double_times :: "double \<Rightarrow> double \<Rightarrow> double" where
  "double_times a b = round_double (fst a * fst b) (snd a + snd b)"

text \<open>\<^verbatim>\<open>Math.floor\<close>; its result is integral, and is kept as an integer.\<close>

definition Math_floor :: "double \<Rightarrow> int" where
  "Math_floor d =
    (if 0 \<le> snd d then int (fst d) * 2 ^ nat (snd d) else int (fst d) div 2 ^ nat (- snd d))"

section \<open>Data model\<close>

text \<open>
  One entity of the roster. \<open>id\<close> and \<open>name\<close> are strings on both paths; the descriptive
  fields are whatever the row held (the second sample entity has no \<open>measurements\<close>).
\<close>

record model =
  id_field :: jsstring
  name :: jsstring
  height :: jsval
  measurements :: jsval
  city :: jsval
  category :: jsval
  bio :: jsval
  is_available :: bool
  photos :: "jsstring list"

type_synonym path = "jsstring list"

record config =
  JSON_OUTPUT_PATH :: path
  PHOTOS_DIR :: path
  GOOGLE_SHEET_ID :: jsval
  YANDEX_DISK_FOLDER :: jsval

text \<open>
  The constant \<^verbatim>\<open>CONFIG\<close>, from the directory above the script's own and the two
  environment variables (\<open>Undefined\<close> when unset).
\<close>

definition CONFIG :: "path \<Rightarrow> jsval \<Rightarrow> jsval \<Rightarrow> config" where
  "CONFIG base env_GOOGLE_SHEET_ID env_YANDEX_DISK_FOLDER =
    \<lparr> JSON_OUTPUT_PATH = base @ [ascii ''data'', ascii ''models.json''],
      PHOTOS_DIR = base @ [ascii ''photos''],
      GOOGLE_SHEET_ID = js_or env_GOOGLE_SHEET_ID (Str []),
      YANDEX_DISK_FOLDER = js_or env_YANDEX_DISK_FOLDER (Str []) \<rparr>"

text \<open>
  A thrown error object, with its message. Every value the surroundings throw is taken to be
  such an object, so that reading its message in a \<^verbatim>\<open>catch\<close> block does not throw.
\<close>

datatype js_error = Error string | TypeError string | SyntaxError string

datatype credentials = ServiceAccount jsstring

datatype sheet = Sheet (getRows: "js_error + row list")

record doc =
  useServiceAccountAuth :: "credentials \<Rightarrow> js_error option"
  loadInfo :: "js_error option"
  sheetsByIndex :: "sheet list"

text \<open>
  What the script's surroundings answer during one run: the decoded service account of the
  environment, the spreadsheet provider, \<^verbatim>\<open>Math.random\<close> (the doubles drawn, in the order
  they are drawn), the file system calls and the clock. An \<open>option\<close> holds the error a call throws.
  The text \<^verbatim>\<open>JSON.stringify(models, null, 2)\<close> is represented by the entity sequence it
  serialises.
\<close>

record world =
  GOOGLE_SERVICE_ACCOUNT_JSON :: "js_error + credentials"
  GoogleSpreadsheet :: "jsval \<Rightarrow> doc"
  Math_random :: "nat \<Rightarrow> double"
  existsSync :: "path \<Rightarrow> bool"
  mkdirSync :: "path \<Rightarrow> js_error option"
  writeFileSync :: "path \<Rightarrow> model list \<Rightarrow> js_error option"
  toISOString :: jsstring

datatype fs_op = Mkdir path | WriteFile path "model list"

record stats =
  totalModels :: nat
  modelsWithPhotos :: nat
  totalPhotos :: nat
  timestamp :: jsstring

record sync_result =
  success :: bool
  stats_of :: stats

section \<open>The built-in sample data\<close>

definition getSampleData :: "model list" where
  "getSampleData =
    [ \<lparr> id_field = ascii ''anna_ivanova'',
        name = [1040, 1085, 1085, 1072, 32, 1048, 1074, 1072, 1085, 1086, 1074, 1072],
        height = Str (ascii ''175''),
        measurements = Str (ascii ''88-60-90''),
        city = Str [1052, 1086, 1089, 1082, 1074, 1072],
        category = Str (ascii ''fashion''),
        bio = Str [1054, 1087, 1099, 1090, 32, 1088, 1072, 1073, 1086, 1090, 1099, 32, 51, 32,
                   1075, 1086, 1076, 1072, 46, 32, 1059, 1095, 1072, 1089, 1090, 1074, 1086,
                   1074, 1072, 1083, 1072, 32, 1074, 32, 1087, 1086, 1082, 1072, 1079, 1072,
                   1093, 32, 77, 101, 114, 99, 101, 100, 101, 115, 45, 66, 101, 110, 122, 32,
                   70, 97, 115, 104, 105, 111, 110, 32, 87, 101, 101, 107, 46],
        is_available = True,
        photos = [ascii ''https://picsum.photos/id/1005/800/1000'',
                  ascii ''https://picsum.photos/id/1011/800/1000''] \<rparr>,
      \<lparr> id_field = ascii ''maria_petrova'',
        name = [1052, 1072, 1088, 1080, 1103, 32, 1055, 1077, 1090, 1088, 1086, 1074, 1072],
        height = Str (ascii ''168''),
        measurements = Undefined,
        city = Str [1057, 1072, 1085, 1082, 1090, 45, 1055, 1077, 1090, 1077, 1088, 1073, 1091,
                    1088, 1075],
        category = Str (ascii ''commercial''),
        bio = Str [1057, 1087, 1077, 1094, 1080, 1072, 1083, 1080, 1079, 1072, 1094, 1080, 1103,
                   58, 32, 1088, 1077, 1082, 1083, 1072, 1084, 1085, 1099, 1077, 32, 1089, 1098,
                   1077, 1084, 1082, 1080, 44, 32, 1082, 1072, 1090, 1072, 1083, 1086, 1075,
                   1080, 46],
        is_available = True,
        photos = [ascii ''https://picsum.photos/id/1025/800/1000'',
                  ascii ''https://picsum.photos/id/1027/800/1000''] \<rparr> ]"

section \<open>Reading the sheet\<close>

text \<open>The callback of \<^verbatim>\<open>rows.map\<close>: one row to one entity.\<close>

definition row_to_model :: "row \<Rightarrow> model" where
  "row_to_model r =
    (let m = \<lparr> id_field = trim (String_js (js_or (js_or (r ''id'') (r ''ID'')) (Str []))),
               name = trim (String_js (js_or (js_or (r ''name'') (r ''Name'')) (Str []))),
               height = js_or (js_or (r ''height'') (r ''Height'')) (Str []),
               measurements = js_or (js_or (r ''measurements'') (r ''Measurements'')) (Str []),
               city = js_or (js_or (r ''city'') (r ''City'')) (Str []),
               category = js_or (js_or (r ''category'') (r ''Category'')) (Str []),
               bio = js_or (js_or (r ''bio'') (r ''Bio'')) (Str []),
               is_available =
                 (\<not> (r ''is_available'' = Str (ascii ''false'') \<or>
                     r ''available'' = Str (ascii ''false''))),
               photos = [] \<rparr>
     in if truthy (js_or (r ''photos'') (r ''Photos''))
        then (let ps = filter (\<lambda>p. p \<noteq> [])
                         (map trim (split_comma
                            (String_js (js_or (js_or (r ''photos'') (r ''Photos'')) (Str [])))))
              in if length ps > 0 then m\<lparr>photos := ps\<rparr> else m)
        else m)"

text \<open>\<^verbatim>\<open>rows.map(...).filter(model => model.id && model.name)\<close>.\<close>

definition rows_to_models :: "row list \<Rightarrow> model list" where
  "rows_to_models rows = filter (\<lambda>m. id_field m \<noteq> [] \<and> name m \<noteq> []) (map row_to_model rows)"

text \<open>
  The body of the \<^verbatim>\<open>try\<close> block of \<^verbatim>\<open>getModelsFromGoogleSheets\<close>; \<open>Inl\<close> is the error
  thrown inside it. A document without sheets has \<^verbatim>\<open>sheetsByIndex[0]\<close> undefined, and the
  call of \<^verbatim>\<open>getRows\<close> on it throws a TypeError.
\<close>

definition read_live :: "config \<Rightarrow> world \<Rightarrow> js_error + model list" where
  "read_live cfg w =
    (let d = GoogleSpreadsheet w (GOOGLE_SHEET_ID cfg) in
     case GOOGLE_SERVICE_ACCOUNT_JSON w of
       Inl e \<Rightarrow> Inl e
     | Inr serviceAccount \<Rightarrow>
        (case useServiceAccountAuth d serviceAccount of
           Some e \<Rightarrow> Inl e
         | None \<Rightarrow>
            (case loadInfo d of
               Some e \<Rightarrow> Inl e
             | None \<Rightarrow>
                (case sheetsByIndex d of
                   [] \<Rightarrow> Inl (TypeError ''Cannot read properties of undefined'')
                 | sh # _ \<Rightarrow>
                    (case getRows sh of
                       Inl e \<Rightarrow> Inl e
                     | Inr rows \<Rightarrow> Inr (rows_to_models rows))))))"

definition getModelsFromGoogleSheets :: "config \<Rightarrow> world \<Rightarrow> model list" where
  "getModelsFromGoogleSheets cfg w =
    (if \<not> truthy (GOOGLE_SHEET_ID cfg) then getSampleData
     else (case read_live cfg w of
             Inr models \<Rightarrow> models
           | Inl e \<Rightarrow> getSampleData))"

section \<open>Photos\<close>

definition placeholder_url :: "int \<Rightarrow> jsstring" where
  "placeholder_url n = ascii ''https://picsum.photos/id/'' @ Number_toString n @ ascii ''/800/1000''"

text \<open>
  \<^verbatim>\<open>getPhotosForModel\<close>, with the number of draws made so far passed through. The
  product of a draw and 1000 is a double product, rounded before \<^verbatim>\<open>Math.floor\<close> is taken.
\<close>

definition getPhotosForModel :: "config \<Rightarrow> world \<Rightarrow> nat \<Rightarrow> jsstring \<Rightarrow> jsstring list \<times> nat" where
  "getPhotosForModel cfg w k modelId =
    (if \<not> truthy (YANDEX_DISK_FOLDER cfg)
     then ([placeholder_url (Math_floor (double_times (Math_random w k) (1000, 0))),
            placeholder_url (Math_floor (double_times (Math_random w (k + 1)) (1000, 0)))],
           k + 2)
     else ([], k))"

text \<open>The body of the loop over the entities in \<^verbatim>\<open>syncModels\<close>.\<close>

definition resolve_photos_step :: "config \<Rightarrow> world \<Rightarrow> nat \<Rightarrow> model \<Rightarrow> model \<times> nat" where
  "resolve_photos_step cfg w k m =
    (if photos m = []
     then (case getPhotosForModel cfg w k (id_field m) of
             (ps, k') \<Rightarrow> (if length ps > 0 then (m\<lparr>photos := ps\<rparr>, k') else (m, k')))
     else (m, k))"

fun resolve_photos_loop :: "config \<Rightarrow> world \<Rightarrow> nat \<Rightarrow> model list \<Rightarrow> model list \<times> nat" where
  "resolve_photos_loop cfg w k [] = ([], k)"
| "resolve_photos_loop cfg w k (m # ms) =
     (case resolve_photos_step cfg w k m of
        (m', k') \<Rightarrow> (case resolve_photos_loop cfg w k' ms of
                       (ms', k'') \<Rightarrow> (m' # ms', k'')))"

section \<open>Writing the snapshot\<close>

definition dirname :: "path \<Rightarrow> path" where
  "dirname p = butlast p"

text \<open>\<open>Inr\<close> holds the file system operations carried out, in order.\<close>

definition saveModelsToJSON :: "config \<Rightarrow> world \<Rightarrow> model list \<Rightarrow> js_error + fs_op list" where
  "saveModelsToJSON cfg w models =
    (let dir = dirname (JSON_OUTPUT_PATH cfg) in
     case (if \<not> existsSync w dir
           then (case mkdirSync w dir of Some e \<Rightarrow> Inl e | None \<Rightarrow> Inr [Mkdir dir])
           else Inr []) of
       Inl e \<Rightarrow> Inl e
     | Inr ops \<Rightarrow>
        (case writeFileSync w (JSON_OUTPUT_PATH cfg) models of
           Some e \<Rightarrow> Inl e
         | None \<Rightarrow> Inr (ops @ [WriteFile (JSON_OUTPUT_PATH cfg) models])))"

section \<open>The run\<close>

definition compute_stats :: "world \<Rightarrow> model list \<Rightarrow> stats" where
  "compute_stats w models =
    \<lparr> totalModels = length models,
      modelsWithPhotos = length (filter (\<lambda>m. length (photos m) > 0) models),
      totalPhotos = foldl (\<lambda>sum m. sum + length (photos m)) 0 models,
      timestamp = toISOString w \<rparr>"

text \<open>
  \<^verbatim>\<open>syncModels\<close>: \<open>Inl\<close> is the error rethrown by its \<^verbatim>\<open>catch\<close>, \<open>Inr\<close> the returned
  object together with the file system operations of the run. The lines written to the
  console are not part of the model.
\<close>

definition syncModels :: "config \<Rightarrow> world \<Rightarrow> js_error + (sync_result \<times> fs_op list)" where
  "syncModels cfg w =
    (let models = fst (resolve_photos_loop cfg w 0 (getModelsFromGoogleSheets cfg w)) in
     case saveModelsToJSON cfg w models of
       Inl e \<Rightarrow> Inl e
     | Inr ops \<Rightarrow> Inr (\<lparr> success = True, stats_of = compute_stats w models \<rparr>, ops))"

section \<open>The field lookup of the specification\<close>

text \<open>
  The lookup as the specification words it, to compare the code with: the text of the first
  alias that holds a non-empty text, and the empty text when neither does.
\<close>

definition first_alias :: "row \<Rightarrow> string \<Rightarrow> string \<Rightarrow> jsstring" where
  "first_alias r a b =
    (case r a of
       Str (c # cs) \<Rightarrow> c # cs
     | _ \<Rightarrow> (case r b of Str (c # cs) \<Rightarrow> c # cs | _ \<Rightarrow> []))"

section \<open>Example inputs\<close>

definition empty_row :: row where
  "empty_row = (\<lambda>_. Undefined)"

definition good_row :: row where
  "good_row = empty_row
     (''id'' := Str (ascii '' a1 ''), ''Name'' := Str (ascii ''Ann''),
      ''height'' := Str (ascii '' 175 ''), ''photos'' := Str (ascii ''x.jpg, y.jpg,''))"

definition blank_row :: row where
  "blank_row = empty_row
     (''id'' := Str (ascii ''   ''), ''ID'' := Str (ascii ''b2''), ''name'' := Str (ascii ''Bea''))"

definition bare_row :: row where
  "bare_row = empty_row (''ID'' := Str (ascii ''c3''), ''name'' := Str (ascii ''Cy ''))"

definition example_doc :: doc where
  "example_doc =
    \<lparr> useServiceAccountAuth = (\<lambda>_. None), loadInfo = None,
      sheetsByIndex = [Sheet (Inr [good_row, blank_row, bare_row])] \<rparr>"

definition example_world :: world where
  "example_world =
    \<lparr> GOOGLE_SERVICE_ACCOUNT_JSON = Inr (ServiceAccount (ascii ''{}'')),
      GoogleSpreadsheet = (\<lambda>_. example_doc),
      Math_random =
        (\<lambda>k. if k = 0 then (0, 0)
             else if k = 1 then (4494592428115755, - 52)
             else (9007199254740991, - 53)),
      existsSync = (\<lambda>_. False),
      mkdirSync = (\<lambda>_. None),
      writeFileSync = (\<lambda>_ _. None),
      toISOString = ascii ''2024-01-01T00:00:00.000Z'' \<rparr>"

definition offline_config :: config where
  "offline_config = CONFIG [ascii ''app''] Undefined Undefined"

definition live_config :: config where
  "live_config = CONFIG [ascii ''app''] (Str (ascii ''sheet-1'')) Undefined"

definition yandex_config :: config where
  "yandex_config = CONFIG [ascii ''app''] (Str (ascii ''sheet-1'')) (Str (ascii ''/models''))"


definition auth_failure_world :: world where
  "auth_failure_world =
    example_world\<lparr>GoogleSpreadsheet :=
      (\<lambda>_. example_doc\<lparr>useServiceAccountAuth := (\<lambda>_. Some (Error ''invalid_grant''))\<rparr>)\<rparr>"

definition write_failure_world :: world where
  "write_failure_world = example_world\<lparr>writeFileSync := (\<lambda>_ _. Some (Error ''EACCES''))\<rparr>"

definition three_models :: "model list" where
  "three_models =
    [row_to_model bare_row,
     row_to_model good_row,
     row_to_model (good_row(''Photos'' := Str (ascii ''p,q''), ''photos'' := Str (ascii ''1.png,2.png,3.png'')))]"

section \<open>Auxiliary facts\<close>

lemma dropWhile_all_iff: "(\<forall>x \<in> set (dropWhile P xs). P x) \<longleftrightarrow> dropWhile P xs = []"
proof
  assume a: "\<forall>x \<in> set (dropWhile P xs). P x"
  show "dropWhile P xs = []"
  proof (rule ccontr)
    assume n: "dropWhile P xs \<noteq> []"
    then have "\<not> P (hd (dropWhile P xs))" by (rule hd_dropWhile)
    moreover have "hd (dropWhile P xs) \<in> set (dropWhile P xs)" using n by simp
    ultimately show False using a by blast
  qed
qed (auto dest: set_dropWhileD)

text \<open>A text is empty after trimming exactly when it holds nothing but whitespace.\<close>

lemma trim_Nil_iff: "trim s = [] \<longleftrightarrow> (\<forall>c \<in> set s. is_ws c)"
  by (simp add: trim_def dropWhile_eq_Nil_conv dropWhile_all_iff)

lemma hd_trim:
  assumes "trim s \<noteq> []"
  shows "\<not> is_ws (hd (trim s))"
proof -
  let ?t = "dropWhile is_ws s"
  let ?u = "dropWhile is_ws (rev ?t)"
  from assms have u: "?u \<noteq> []" by (simp add: trim_def)
  then have t: "?t \<noteq> []" by (cases "?t") auto
  have "hd (trim s) = last ?u" using u by (simp add: trim_def hd_rev)
  also have "\<dots> = last (rev ?t)" using u
    by (metis append_Nil2 last_appendR takeWhile_dropWhile_id)
  also have "\<dots> = hd ?t" using t by (simp add: last_rev)
  finally show ?thesis using t hd_dropWhile by metis
qed

lemma last_trim:
  assumes "trim s \<noteq> []"
  shows "\<not> is_ws (last (trim s))"
proof -
  let ?u = "dropWhile is_ws (rev (dropWhile is_ws s))"
  from assms have u: "?u \<noteq> []" by (simp add: trim_def)
  have "last (trim s) = hd ?u" using u by (simp add: trim_def last_rev)
  then show ?thesis using u hd_dropWhile by metis
qed

lemma js_or_aliases: "js_or (js_or (r a) (r b)) (Str []) = Str (first_alias r a b)"
  by (cases "r a"; cases "r b")
     (auto simp: js_or_def first_alias_def split: list.splits)

lemma id_field_row_to_model: "id_field (row_to_model r) = trim (first_alias r ''id'' ''ID'')"
  by (simp add: row_to_model_def Let_def js_or_aliases)

lemma name_row_to_model: "name (row_to_model r) = trim (first_alias r ''name'' ''Name'')"
  by (simp add: row_to_model_def Let_def js_or_aliases)

lemma first_alias_absent: "r a = Undefined \<Longrightarrow> r b = Undefined \<Longrightarrow> first_alias r a b = []"
  by (simp add: first_alias_def)

lemma rows_to_models_append:
  "rows_to_models (xs @ ys) = rows_to_models xs @ rows_to_models ys"
  by (simp add: rows_to_models_def)

lemma read_live_kept:
  "read_live cfg w = Inr ms \<Longrightarrow> m \<in> set ms \<Longrightarrow> id_field m \<noteq> [] \<and> name m \<noteq> []"
  by (auto simp: read_live_def Let_def rows_to_models_def
           split: sum.splits option.splits list.splits)

lemma read_live_error_stages:
  "read_live cfg w = Inl e \<longleftrightarrow>
     GOOGLE_SERVICE_ACCOUNT_JSON w = Inl e
     \<or> (\<exists>c. GOOGLE_SERVICE_ACCOUNT_JSON w = Inr c
            \<and> (useServiceAccountAuth (GoogleSpreadsheet w (GOOGLE_SHEET_ID cfg)) c = Some e
               \<or> useServiceAccountAuth (GoogleSpreadsheet w (GOOGLE_SHEET_ID cfg)) c = None
                 \<and> (loadInfo (GoogleSpreadsheet w (GOOGLE_SHEET_ID cfg)) = Some e
                    \<or> loadInfo (GoogleSpreadsheet w (GOOGLE_SHEET_ID cfg)) = None
                      \<and> (case sheetsByIndex (GoogleSpreadsheet w (GOOGLE_SHEET_ID cfg)) of
                            [] \<Rightarrow> e = TypeError ''Cannot read properties of undefined''
                          | sh # _ \<Rightarrow> getRows sh = Inl e))))"
  by (auto simp: read_live_def Let_def split: sum.splits option.splits list.splits)

lemma sample_data_populated:
  "m \<in> set getSampleData \<Longrightarrow> id_field m \<noteq> [] \<and> name m \<noteq> [] \<and> photos m \<noteq> []"
  by (auto simp: getSampleData_def ascii_def)

lemma foldl_photos:
  "foldl (\<lambda>sum m. sum + length (photos m)) a ms = a + sum_list (map (\<lambda>m. length (photos m)) ms)"
  by (induction ms arbitrary: a) auto

text \<open>
  Rounding a product raises it by at most one part in \<open>2\<^sup>5\<^sup>3\<close>, and a double below 1 is at
  most \<open>1 - 2\<^sup>-\<^sup>5\<^sup>3\<close>: the rounded product of a draw and 1000 stays below 1000.
\<close>

lemma bit_length_0: "bit_length 0 = 0"
  by (simp add: bit_length.simps)

lemma bit_length_upper: "n < 2 ^ bit_length n"
proof (induction n rule: bit_length.induct)
  case (1 n)
  show ?case
  proof (cases "n = 0")
    case True
    then show ?thesis by (simp add: bit_length.simps)
  next
    case False
    with 1 have "n div 2 < 2 ^ bit_length (n div 2)" by simp
    then have "n < 2 * 2 ^ bit_length (n div 2)" by linarith
    with False show ?thesis by (simp add: bit_length.simps [of n])
  qed
qed

lemma bit_length_lower: "n \<noteq> 0 \<Longrightarrow> 2 ^ (bit_length n - 1) \<le> n"
proof (induction n rule: bit_length.induct)
  case (1 n)
  show ?case
  proof (cases "n div 2 = 0")
    case True
    with 1(2) have "bit_length n = 1"
      by (simp add: bit_length.simps [of n] bit_length.simps [of 0])
    with 1(2) show ?thesis by simp
  next
    case False
    with 1 have ih: "2 ^ (bit_length (n div 2) - 1) \<le> n div 2" by simp
    from False have pos: "0 < bit_length (n div 2)"
      by (simp add: bit_length.simps [of "n div 2"])
    have "bit_length n - 1 = Suc (bit_length (n div 2) - 1)"
      using 1(2) pos by (simp add: bit_length.simps [of n])
    then have "(2::nat) ^ (bit_length n - 1) = 2 * 2 ^ (bit_length (n div 2) - 1)" by simp
    also have "\<dots> \<le> 2 * (n div 2)" using ih by simp
    also have "\<dots> \<le> n" by simp
    finally show ?thesis .
  qed
qed

lemma double_value_powi: "double_value (m, e) = real m * 2 powi e"
  by (simp add: double_value_def power_int_def field_simps)

lemma round_double_nat:
  assumes s: "0 < s" and b: "bit_length n = 53 + s"
  defines "q \<equiv> n div 2 ^ s" and "r \<equiv> n mod 2 ^ s"
  defines "q' \<equiv> (if 2 ^ (s - 1) < r \<or> (r = 2 ^ (s - 1) \<and> odd q) then q + 1 else q)"
  shows "q' * 2 ^ s * 2 ^ 53 \<le> n * (2 ^ 53 + 1)"
proof -
  have n0: "n \<noteq> 0" using b by (cases "n = 0") (simp_all add: bit_length_0)
  have low: "2 ^ (52 + s) \<le> n" using bit_length_lower [OF n0] b by simp
  have split: "n = q * 2 ^ s + r" unfolding q_def r_def by (rule div_mult_mod_eq [symmetric])
  have two: "(2::nat) ^ s = 2 * 2 ^ (s - 1)" using s by (cases s) auto
  have step: "q' * 2 ^ s \<le> n + 2 ^ (s - 1)"
  proof (cases "q' = q")
    case True
    then show ?thesis using split by simp
  next
    case False
    then have q': "q' = q + 1" and r: "2 ^ (s - 1) \<le> r"
      unfolding q'_def by (auto split: if_splits)
    have "q' * 2 ^ s = q * 2 ^ s + 2 ^ s" using q' by (simp add: algebra_simps)
    also have "\<dots> \<le> q * 2 ^ s + r + 2 ^ (s - 1)" using r two by linarith
    finally show ?thesis using split by simp
  qed
  have "(2::nat) ^ (s - 1) * 2 ^ 53 = 2 ^ (52 + s)"
    using s by (cases s) (auto simp: power_add)
  then have "(2::nat) ^ (s - 1) * 2 ^ 53 \<le> n" using low by simp
  moreover have "q' * 2 ^ s * 2 ^ 53 \<le> (n + 2 ^ (s - 1)) * 2 ^ 53"
    using step by (simp only: mult_le_mono1)
  ultimately show ?thesis by (simp add: algebra_simps)
qed

lemma round_double_value:
  assumes "- 1074 \<le> e"
  shows "double_value (round_double n e) \<le> double_value (n, e) * (1 + 1 / 2 ^ 53)"
proof (cases "bit_length n \<le> 53")
  case True
  then have "round_double n e = (n, e)"
    using assms by (simp add: round_double_def)
  moreover have "0 \<le> double_value (n, e)"
    by (simp add: double_value_def)
  ultimately show ?thesis by (simp add: algebra_simps)
next
  case False
  define s where "s = bit_length n - 53"
  have s: "0 < s" and b: "bit_length n = 53 + s" using False by (simp_all add: s_def)
  define q' where "q' = (if 2 ^ (s - 1) < n mod 2 ^ s \<or> (n mod 2 ^ s = 2 ^ (s - 1) \<and> odd (n div 2 ^ s))
                         then n div 2 ^ s + 1 else n div 2 ^ s)"
  have m: "max (bit_length n - 53) (nat (- 1074 - e)) = s"
    using assms by (simp add: s_def)
  have rd: "round_double n e = (q', e + int s)"
    using s by (simp add: round_double_def m Let_def q'_def)
  have nat_le: "q' * 2 ^ s * 2 ^ 53 \<le> n * (2 ^ 53 + 1)"
    unfolding q'_def by (rule round_double_nat [OF s b])
  then have "real (q' * 2 ^ s * 2 ^ 53) \<le> real (n * (2 ^ 53 + 1))"
    by (rule of_nat_mono)
  then have r: "real q' * 2 ^ s * 2 ^ 53 \<le> real n * (2 ^ 53 + 1)"
    by simp
  have "double_value (q', e + int s) = real q' * 2 ^ s * 2 powi e"
    by (simp add: double_value_powi power_int_add)
  also have "\<dots> = (real q' * 2 ^ s * 2 ^ 53) * (2 powi e / 2 ^ 53)"
    by simp
  also have "\<dots> \<le> (real n * (2 ^ 53 + 1)) * (2 powi e / 2 ^ 53)"
    by (rule mult_right_mono [OF r]) simp
  also have "\<dots> = double_value (n, e) * (1 + 1 / 2 ^ 53)"
    by (simp add: double_value_powi field_simps)
  finally show ?thesis by (simp add: rd)
qed

lemma double_below_one:
  assumes "is_double d" and "double_value d < 1"
  shows "double_value d \<le> 1 - 1 / 2 ^ 53"
proof -
  obtain m e where d: "d = (m, e)" by (cases d)
  show ?thesis
  proof (cases "- 53 \<le> e")
    case True
    define k where "k = nat (e + 53)"
    have e: "e = int k - 53" using True by (simp add: k_def)
    have v: "double_value d * 2 ^ 53 = real (m * 2 ^ k)"
      by (simp add: d double_value_powi e power_int_diff)
    have "real (m * 2 ^ k) < real (2 ^ 53)"
      using assms(2) v by (simp del: of_nat_mult of_nat_power)
    then have "m * 2 ^ k < 2 ^ 53" by (simp only: of_nat_less_iff)
    then have "m * 2 ^ k \<le> 2 ^ 53 - 1" by simp
    then have "real (m * 2 ^ k) \<le> real (2 ^ 53 - 1)" by (simp only: of_nat_le_iff)
    then have "double_value d * 2 ^ 53 \<le> 2 ^ 53 - 1" using v by simp
    then show ?thesis by (simp add: field_simps)
  next
    case False
    define k where "k = nat (- e - 54)"
    have e: "e = - 54 - int k" using False by (simp add: k_def)
    have "m < 2 ^ 53" using assms(1) by (simp add: is_double_def d)
    then have "real m < real (2 ^ 53)" by (simp only: of_nat_less_iff)
    then have m: "real m < 2 ^ 53" by simp
    have "double_value d = real m / (2 ^ 54 * 2 ^ k)"
      by (simp add: d double_value_powi e power_int_diff power_int_minus field_simps)
    also have "\<dots> \<le> real m / 2 ^ 54"
    proof -
      have "(1::real) \<le> 2 ^ k" by simp
      then have "real m * 1 \<le> real m * 2 ^ k" by (intro mult_left_mono) simp_all
      then show ?thesis by (simp add: field_simps)
    qed
    also have "\<dots> \<le> 1 - 1 / 2 ^ 53" using m by simp
    finally show ?thesis .
  qed
qed

lemma Math_floor_value: "Math_floor d = \<lfloor>double_value d\<rfloor>"
proof (cases "0 \<le> snd d")
  case True
  have "\<lfloor>real (fst d) * 2 ^ nat (snd d)\<rfloor> = \<lfloor>real_of_int (int (fst d) * 2 ^ nat (snd d))\<rfloor>"
    by simp
  then show ?thesis using True
    by (simp add: Math_floor_def double_value_def del: of_int_mult of_int_power)
next
  case False
  have "\<lfloor>real (fst d) / 2 ^ nat (- snd d)\<rfloor> = \<lfloor>real_of_int (int (fst d)) / real_of_int (2 ^ nat (- snd d))\<rfloor>"
    by simp
  also have "\<dots> = int (fst d) div 2 ^ nat (- snd d)"
    by (rule floor_divide_of_int_eq)
  finally show ?thesis using False
    by (simp add: Math_floor_def double_value_def)
qed

lemma floor_random_times_1000:
  assumes "is_double d" and "double_value d < 1"
  shows "0 \<le> Math_floor (double_times d (1000, 0)) \<and> Math_floor (double_times d (1000, 0)) \<le> 999"
proof -
  let ?p = "double_times d (1000, 0)"
  have e: "- 1074 \<le> snd d" using assms(1) by (simp add: is_double_def)
  have p: "?p = round_double (fst d * 1000) (snd d)"
    by (simp add: double_times_def)
  have x: "double_value (fst d * 1000, snd d) = double_value d * 1000"
    by (simp add: double_value_def)
  have "double_value ?p \<le> double_value d * 1000 * (1 + 1 / 2 ^ 53)"
    using round_double_value [OF e, of "fst d * 1000"] by (simp only: p x)
  also have "\<dots> \<le> (1 - 1 / 2 ^ 53) * 1000 * (1 + 1 / 2 ^ 53)"
    using double_below_one [OF assms] by simp
  also have "\<dots> < 1000" by simp
  finally have up: "double_value ?p < 1000" .
  have lo: "0 \<le> double_value ?p" by (simp add: double_value_def)
  show ?thesis using up lo by (simp add: Math_floor_value floor_less_iff)
qed

lemma loop_populated:
  "\<forall>m \<in> set ms. photos m \<noteq> [] \<Longrightarrow> resolve_photos_loop cfg w k ms = (ms, k)"
  by (induction ms) (auto simp: resolve_photos_step_def)

lemma loop_folder_configured:
  "truthy (YANDEX_DISK_FOLDER cfg) \<Longrightarrow> resolve_photos_loop cfg w k ms = (ms, k)"
  by (induction ms) (auto simp: resolve_photos_step_def getPhotosForModel_def)

lemma loop_sample_data: "resolve_photos_loop cfg w k getSampleData = (getSampleData, k)"
  by (rule loop_populated) (simp add: sample_data_populated)

lemma save_ignores_sheet_id:
  "saveModelsToJSON (cfg\<lparr>GOOGLE_SHEET_ID := x\<rparr>) w ms = saveModelsToJSON cfg w ms"
  by (simp add: saveModelsToJSON_def Let_def split: sum.splits option.splits)

lemma save_last_op:
  "saveModelsToJSON cfg w ms = Inr ops \<Longrightarrow> last ops = WriteFile (JSON_OUTPUT_PATH cfg) ms"
  by (auto simp: saveModelsToJSON_def Let_def split: if_splits option.splits)

lemma three_entities:
  assumes "length ms = 3"
    and "length (filter (\<lambda>m. length (photos m) > 0) ms) = 2"
    and "\<exists>m\<in>set ms. length (photos m) = 2"
    and "\<exists>m\<in>set ms. length (photos m) = 3"
  shows "sum_list (map (\<lambda>m. length (photos m)) ms) = 5"
proof -
  from assms(1) obtain x y z where ms: "ms = [x, y, z]"
    by (metis (no_types, opaque_lifting) length_0_conv length_Suc_conv numeral_3_eq_3)
  show ?thesis using assms(2,3,4) unfolding ms
    by (auto split: if_splits)
qed

section \<open>The properties of the specification\<close>

text \<open>
  C1. With a sheet identifier configured, an error thrown while reading the sheet (decoding
  the service account, authenticating, loading the sheet information, reading the rows; see
  \<open>read_live_error_stages\<close>) does not leave the source reader: it returns the sample data,
  and the run goes on exactly as the run without a sheet identifier does, returning its
  result whenever the snapshot can be written.
\<close>

theorem live_read_error_falls_back_to_sample_data:
  assumes "truthy (GOOGLE_SHEET_ID cfg)"
    and "read_live cfg w = Inl e"
  shows "getModelsFromGoogleSheets cfg w = getSampleData
    \<and> syncModels cfg w = syncModels (cfg\<lparr>GOOGLE_SHEET_ID := Str []\<rparr>) w
    \<and> (\<forall>ops. saveModelsToJSON cfg w getSampleData = Inr ops \<longrightarrow>
          syncModels cfg w
            = Inr (\<lparr>success = True, stats_of = compute_stats w getSampleData\<rparr>, ops))"
proof -
  have g: "getModelsFromGoogleSheets cfg w = getSampleData"
    using assms by (simp add: getModelsFromGoogleSheets_def)
  have g': "getModelsFromGoogleSheets (cfg\<lparr>GOOGLE_SHEET_ID := Str []\<rparr>) w = getSampleData"
    by (simp add: getModelsFromGoogleSheets_def)
  have s: "syncModels c w =
      (case saveModelsToJSON c w getSampleData of
         Inl e \<Rightarrow> Inl e
       | Inr ops \<Rightarrow> Inr (\<lparr>success = True, stats_of = compute_stats w getSampleData\<rparr>, ops))"
    if "getModelsFromGoogleSheets c w = getSampleData" for c
    using that by (simp add: syncModels_def loop_sample_data)
  have "syncModels cfg w = syncModels (cfg\<lparr>GOOGLE_SHEET_ID := Str []\<rparr>) w"
    by (simp only: s [OF g] s [OF g'] save_ignores_sheet_id)
  moreover have "syncModels cfg w
      = Inr (\<lparr>success = True, stats_of = compute_stats w getSampleData\<rparr>, ops)"
    if "saveModelsToJSON cfg w getSampleData = Inr ops" for ops
    using that by (simp add: s [OF g])
  ultimately show ?thesis using g by blast
qed

text \<open>
  A run in which the authentication is refused.
\<close>

theorem live_read_error_falls_back_to_sample_data_witness:
  "truthy (GOOGLE_SHEET_ID live_config)
   \<and> read_live live_config auth_failure_world = Inl (Error ''invalid_grant'')
   \<and> getModelsFromGoogleSheets live_config auth_failure_world = getSampleData
   \<and> syncModels live_config auth_failure_world
       = Inr (\<lparr>success = True, stats_of = compute_stats auth_failure_world getSampleData\<rparr>,
              [Mkdir [ascii ''app'', ascii ''data''],
               WriteFile [ascii ''app'', ascii ''data'', ascii ''models.json''] getSampleData])"
proof -
  have a: "truthy (GOOGLE_SHEET_ID live_config)"
    by (simp add: live_config_def CONFIG_def js_or_def ascii_def)
  have b: "read_live live_config auth_failure_world = Inl (Error ''invalid_grant'')"
    by (simp add: read_live_def auth_failure_world_def example_world_def example_doc_def)
  have c: "saveModelsToJSON live_config auth_failure_world getSampleData
      = Inr [Mkdir [ascii ''app'', ascii ''data''],
             WriteFile [ascii ''app'', ascii ''data'', ascii ''models.json''] getSampleData]"
    by (simp add: saveModelsToJSON_def dirname_def live_config_def CONFIG_def
        auth_failure_world_def example_world_def)
  note t = live_read_error_falls_back_to_sample_data [OF a b]
  have d: "getModelsFromGoogleSheets live_config auth_failure_world = getSampleData"
    using t by blast
  have e: "syncModels live_config auth_failure_world
       = Inr (\<lparr>success = True, stats_of = compute_stats auth_failure_world getSampleData\<rparr>,
              [Mkdir [ascii ''app'', ascii ''data''],
               WriteFile [ascii ''app'', ascii ''data'', ascii ''models.json''] getSampleData])"
    using t c by blast
  show ?thesis
    using a b d e by - (intro conjI; assumption)
qed

text \<open>
  C7. Without a sheet identifier the source reader returns the sample data: two entities,
  each with a non-empty \<open>id\<close>, \<open>name\<close> and photo sequence. The photo loop leaves them as
  they are and makes no draw, and the snapshot a successful run writes is the sample data.
\<close>

theorem offline_run_uses_sample_data:
  "\<not> truthy (GOOGLE_SHEET_ID cfg) \<longrightarrow>
     getModelsFromGoogleSheets cfg w = getSampleData
     \<and> 2 \<le> length getSampleData
     \<and> (\<forall>m \<in> set getSampleData. id_field m \<noteq> [] \<and> name m \<noteq> [] \<and> photos m \<noteq> [])
     \<and> resolve_photos_loop cfg w k getSampleData = (getSampleData, k)
     \<and> (\<forall>res ops. syncModels cfg w = Inr (res, ops) \<longrightarrow>
           last ops = WriteFile (JSON_OUTPUT_PATH cfg) getSampleData)"
proof (intro impI conjI ballI allI)
  assume n: "\<not> truthy (GOOGLE_SHEET_ID cfg)"
  then show g: "getModelsFromGoogleSheets cfg w = getSampleData"
    by (simp add: getModelsFromGoogleSheets_def)
  show "2 \<le> length getSampleData" by (simp add: getSampleData_def)
  show "resolve_photos_loop cfg w k getSampleData = (getSampleData, k)"
    by (rule loop_sample_data)
  fix res ops assume "syncModels cfg w = Inr (res, ops)"
  then have "saveModelsToJSON cfg w getSampleData = Inr ops"
    by (simp add: syncModels_def Let_def g loop_sample_data split: sum.splits)
  then show "last ops = WriteFile (JSON_OUTPUT_PATH cfg) getSampleData"
    by (rule save_last_op)
next
  fix m assume "m \<in> set getSampleData"
  then show "id_field m \<noteq> []" "name m \<noteq> []" "photos m \<noteq> []"
    using sample_data_populated by blast+
qed

text \<open>
  The run without a sheet identifier, in a world where the data directory is missing.
\<close>

theorem offline_run_uses_sample_data_witness:
  "\<not> truthy (GOOGLE_SHEET_ID offline_config)
   \<and> getModelsFromGoogleSheets offline_config example_world = getSampleData
   \<and> map id_field getSampleData = [ascii ''anna_ivanova'', ascii ''maria_petrova'']
   \<and> [] \<notin> set (map name getSampleData)
   \<and> map (\<lambda>m. length (photos m)) getSampleData = [2, 2]
   \<and> syncModels offline_config example_world
       = Inr (\<lparr>success = True, stats_of = compute_stats example_world getSampleData\<rparr>,
              [Mkdir [ascii ''app'', ascii ''data''],
               WriteFile [ascii ''app'', ascii ''data'', ascii ''models.json''] getSampleData])
   \<and> last [Mkdir [ascii ''app'', ascii ''data''],
            WriteFile [ascii ''app'', ascii ''data'', ascii ''models.json''] getSampleData]
       = WriteFile (JSON_OUTPUT_PATH offline_config) getSampleData"
proof -
  have a: "\<not> truthy (GOOGLE_SHEET_ID offline_config)"
    by (simp add: offline_config_def CONFIG_def js_or_def)
  have b: "map id_field getSampleData = [ascii ''anna_ivanova'', ascii ''maria_petrova'']"
    "map (\<lambda>m. length (photos m)) getSampleData = [2, 2]"
    by (simp_all add: getSampleData_def)
  have p: "JSON_OUTPUT_PATH offline_config = [ascii ''app'', ascii ''data'', ascii ''models.json'']"
    by (simp add: offline_config_def CONFIG_def)
  have c: "saveModelsToJSON offline_config example_world getSampleData
      = Inr [Mkdir [ascii ''app'', ascii ''data''],
             WriteFile [ascii ''app'', ascii ''data'', ascii ''models.json''] getSampleData]"
    by (simp add: saveModelsToJSON_def dirname_def p example_world_def)
  have t: "getModelsFromGoogleSheets offline_config example_world = getSampleData
     \<and> (\<forall>m \<in> set getSampleData. id_field m \<noteq> [] \<and> name m \<noteq> [] \<and> photos m \<noteq> [])
     \<and> resolve_photos_loop offline_config example_world 0 getSampleData = (getSampleData, 0)"
    using a offline_run_uses_sample_data [of offline_config example_world 0] by blast
  then have s: "syncModels offline_config example_world
       = Inr (\<lparr>success = True, stats_of = compute_stats example_world getSampleData\<rparr>,
              [Mkdir [ascii ''app'', ascii ''data''],
               WriteFile [ascii ''app'', ascii ''data'', ascii ''models.json''] getSampleData])"
    by (simp add: syncModels_def Let_def c)
  have n: "[] \<notin> set (map name getSampleData)" using t by auto
  show ?thesis using a b p s t n by simp
qed

text \<open>
  C8. Writing the snapshot fails exactly when the directory is missing and cannot be made,
  or the file cannot be written; the run then ends with that same error and returns no
  statistics.
\<close>

theorem persistence_error_propagates:
  "(saveModelsToJSON cfg w ms = Inl e \<longleftrightarrow>
      (\<not> existsSync w (dirname (JSON_OUTPUT_PATH cfg))
         \<and> mkdirSync w (dirname (JSON_OUTPUT_PATH cfg)) = Some e)
      \<or> ((existsSync w (dirname (JSON_OUTPUT_PATH cfg))
            \<or> mkdirSync w (dirname (JSON_OUTPUT_PATH cfg)) = None)
          \<and> writeFileSync w (JSON_OUTPUT_PATH cfg) ms = Some e))
   \<and> (saveModelsToJSON cfg w (fst (resolve_photos_loop cfg w 0 (getModelsFromGoogleSheets cfg w)))
         = Inl e
       \<longrightarrow> syncModels cfg w = Inl e)"
  by (auto simp: saveModelsToJSON_def syncModels_def Let_def split: option.splits)

text \<open>
  A run whose file write is refused.
\<close>

theorem persistence_error_propagates_witness:
  "writeFileSync write_failure_world (JSON_OUTPUT_PATH offline_config) getSampleData
      = Some (Error ''EACCES'')
   \<and> mkdirSync write_failure_world (dirname (JSON_OUTPUT_PATH offline_config)) = None
   \<and> saveModelsToJSON offline_config write_failure_world
        (fst (resolve_photos_loop offline_config write_failure_world 0
               (getModelsFromGoogleSheets offline_config write_failure_world)))
      = Inl (Error ''EACCES'')
   \<and> syncModels offline_config write_failure_world = Inl (Error ''EACCES'')"
proof -
  have a: "writeFileSync write_failure_world p ms = Some (Error ''EACCES'')" for p ms
    by (simp add: write_failure_world_def)
  have b: "mkdirSync write_failure_world p = None" for p
    by (simp add: write_failure_world_def example_world_def)
  show ?thesis
    using a b
      persistence_error_propagates [of offline_config write_failure_world
        "fst (resolve_photos_loop offline_config write_failure_world 0
               (getModelsFromGoogleSheets offline_config write_failure_world))" "Error ''EACCES''"]
    by simp
qed

text \<open>
  C10. With a photo folder configured the photo lookup returns no photo and makes no draw,
  so the photo loop changes no entity, and the snapshot a successful run writes is the
  sequence the source reader returned: an entity that came without photos is written
  without photos.
\<close>

theorem configured_folder_adds_no_photos:
  "truthy (YANDEX_DISK_FOLDER cfg) \<longrightarrow>
     getPhotosForModel cfg w k modelId = ([], k)
     \<and> resolve_photos_step cfg w k m = (m, k)
     \<and> resolve_photos_loop cfg w k ms = (ms, k)
     \<and> (\<forall>res ops. syncModels cfg w = Inr (res, ops) \<longrightarrow>
           last ops = WriteFile (JSON_OUTPUT_PATH cfg) (getModelsFromGoogleSheets cfg w))"
proof (intro impI conjI allI)
  assume y: "truthy (YANDEX_DISK_FOLDER cfg)"
  then show "getPhotosForModel cfg w k modelId = ([], k)"
    by (simp add: getPhotosForModel_def)
  show "resolve_photos_step cfg w k m = (m, k)"
    using y by (simp add: resolve_photos_step_def getPhotosForModel_def)
  show "resolve_photos_loop cfg w k ms = (ms, k)"
    using y by (rule loop_folder_configured)
  fix res ops assume "syncModels cfg w = Inr (res, ops)"
  then have "saveModelsToJSON cfg w (getModelsFromGoogleSheets cfg w) = Inr ops"
    by (simp add: syncModels_def Let_def loop_folder_configured [OF y] split: sum.splits)
  then show "last ops = WriteFile (JSON_OUTPUT_PATH cfg) (getModelsFromGoogleSheets cfg w)"
    by (rule save_last_op)
qed

text \<open>
  A run with a photo folder configured, on a sheet whose last row has no photos.
\<close>

theorem configured_folder_adds_no_photos_witness:
  "truthy (YANDEX_DISK_FOLDER yandex_config)
   \<and> getPhotosForModel yandex_config example_world 0 (ascii ''c3'') = ([], 0)
   \<and> map id_field (getModelsFromGoogleSheets yandex_config example_world) = [ascii ''a1'', ascii ''c3'']
   \<and> map (\<lambda>m. length (photos m)) (getModelsFromGoogleSheets yandex_config example_world) = [2, 0]
   \<and> syncModels yandex_config example_world
       = Inr (\<lparr>success = True,
               stats_of = compute_stats example_world
                            (getModelsFromGoogleSheets yandex_config example_world)\<rparr>,
              [Mkdir [ascii ''app'', ascii ''data''],
               WriteFile [ascii ''app'', ascii ''data'', ascii ''models.json'']
                 (getModelsFromGoogleSheets yandex_config example_world)])"
proof -
  have a: "truthy (YANDEX_DISK_FOLDER yandex_config)"
    by (simp add: yandex_config_def CONFIG_def js_or_def ascii_def)
  have g: "getModelsFromGoogleSheets yandex_config example_world
      = [row_to_model good_row, row_to_model bare_row]"
    by (simp add: getModelsFromGoogleSheets_def yandex_config_def CONFIG_def js_or_def read_live_def
        example_world_def example_doc_def rows_to_models_def id_field_row_to_model
        name_row_to_model first_alias_def good_row_def blank_row_def bare_row_def empty_row_def
        trim_def is_ws_def ascii_def)
  have b: "map id_field [row_to_model good_row, row_to_model bare_row] = [ascii ''a1'', ascii ''c3'']"
    by (simp add: id_field_row_to_model first_alias_def good_row_def bare_row_def empty_row_def
        trim_def is_ws_def ascii_def)
  have c: "map (\<lambda>m. length (photos m)) [row_to_model good_row, row_to_model bare_row] = [2, 0]"
    by (simp add: row_to_model_def Let_def js_or_def good_row_def bare_row_def empty_row_def
        trim_def is_ws_def ascii_def)
  have p: "JSON_OUTPUT_PATH yandex_config = [ascii ''app'', ascii ''data'', ascii ''models.json'']"
    by (simp add: yandex_config_def CONFIG_def)
  have s: "saveModelsToJSON yandex_config example_world ms
      = Inr [Mkdir [ascii ''app'', ascii ''data''],
             WriteFile [ascii ''app'', ascii ''data'', ascii ''models.json''] ms]" for ms
    by (simp add: saveModelsToJSON_def dirname_def p example_world_def)
  have t: "getPhotosForModel yandex_config example_world 0 (ascii ''c3'') = ([], 0)
     \<and> resolve_photos_loop yandex_config example_world 0
          (getModelsFromGoogleSheets yandex_config example_world)
        = (getModelsFromGoogleSheets yandex_config example_world, 0)"
    using a configured_folder_adds_no_photos [of yandex_config example_world 0 "ascii ''c3''" _
        "getModelsFromGoogleSheets yandex_config example_world"]
    by blast
  have t1: "getPhotosForModel yandex_config example_world 0 (ascii ''c3'') = ([], 0)"
    using t by blast
  have l: "resolve_photos_loop yandex_config example_world 0
          (getModelsFromGoogleSheets yandex_config example_world)
        = (getModelsFromGoogleSheets yandex_config example_world, 0)"
    using t by blast
  have b': "map id_field (getModelsFromGoogleSheets yandex_config example_world)
      = [ascii ''a1'', ascii ''c3'']"
    by (simp only: g b)
  have c': "map (\<lambda>m. length (photos m)) (getModelsFromGoogleSheets yandex_config example_world)
      = [2, 0]"
    by (simp only: g c)
  have s': "syncModels yandex_config example_world
       = Inr (\<lparr>success = True,
               stats_of = compute_stats example_world
                            (getModelsFromGoogleSheets yandex_config example_world)\<rparr>,
              [Mkdir [ascii ''app'', ascii ''data''],
               WriteFile [ascii ''app'', ascii ''data'', ascii ''models.json'']
                 (getModelsFromGoogleSheets yandex_config example_world)])"
    by (simp add: syncModels_def Let_def l s)
  show ?thesis
    using a t1 b' c' s' by - (intro conjI; assumption)
qed

text \<open>
  C2. For every raw row, the entity made from it has \<open>is_available\<close> false exactly when
  the row's \<open>is_available\<close> or \<open>available\<close> cell is the literal text \<open>false\<close>; an
  absent cell, the text \<open>true\<close> and any other text give true. The photo step does not
  touch the flag.
\<close>

theorem is_available_false_iff_literal_false:
  "(is_available (row_to_model r) = False \<longleftrightarrow>
      r ''is_available'' = Str (ascii ''false'') \<or> r ''available'' = Str (ascii ''false''))
   \<and> is_available (fst (resolve_photos_step cfg w k m)) = is_available m"
  by (simp add: row_to_model_def Let_def resolve_photos_step_def split: prod.splits)

text \<open>
  The rule at four rows: \<open>available = false\<close>, \<open>is_available = FALSE\<close>, no cell at
  all, \<open>is_available = true\<close>.
\<close>

theorem is_available_false_iff_literal_false_witness:
  "is_available (row_to_model (empty_row(''available'' := Str (ascii ''false'')))) = False
   \<and> is_available (row_to_model (empty_row(''is_available'' := Str (ascii ''FALSE'')))) = True
   \<and> is_available (row_to_model empty_row) = True
   \<and> is_available (row_to_model (empty_row(''is_available'' := Str (ascii ''true'')))) = True"
  using is_available_false_iff_literal_false [of "empty_row(''available'' := Str (ascii ''false''))"]
    is_available_false_iff_literal_false [of "empty_row(''is_available'' := Str (ascii ''FALSE''))"]
    is_available_false_iff_literal_false [of empty_row]
    is_available_false_iff_literal_false [of "empty_row(''is_available'' := Str (ascii ''true''))"]
  by (simp add: empty_row_def ascii_def)

text \<open>
  C3. The entity sequence returned by the source reader never holds an entity with an empty
  \<open>id\<close> or an empty \<open>name\<close>; a row whose \<open>id\<close> or \<open>name\<close> is empty after trimming,
  or absent under both of its headers, contributes no entity to the sequence made from the
  rows.
\<close>

theorem rows_without_id_or_name_discarded:
  "(\<forall>m \<in> set (getModelsFromGoogleSheets cfg w). id_field m \<noteq> [] \<and> name m \<noteq> [])
   \<and> (trim (first_alias r ''id'' ''ID'') = [] \<or> trim (first_alias r ''name'' ''Name'') = []
        \<longrightarrow> rows_to_models (xs @ r # ys) = rows_to_models (xs @ ys))
   \<and> ((r ''id'' = Undefined \<and> r ''ID'' = Undefined) \<or> (r ''name'' = Undefined \<and> r ''Name'' = Undefined)
        \<longrightarrow> rows_to_models (xs @ r # ys) = rows_to_models (xs @ ys))"
proof (intro conjI ballI impI)
  fix m assume "m \<in> set (getModelsFromGoogleSheets cfg w)"
  then show "id_field m \<noteq> []" "name m \<noteq> []"
    by (auto simp: getModelsFromGoogleSheets_def
             split: if_splits sum.splits dest: read_live_kept sample_data_populated)
next
  assume "trim (first_alias r ''id'' ''ID'') = [] \<or> trim (first_alias r ''name'' ''Name'') = []"
  then have "rows_to_models [r] = []"
    by (auto simp: rows_to_models_def id_field_row_to_model name_row_to_model)
  then show "rows_to_models (xs @ r # ys) = rows_to_models (xs @ ys)"
    using rows_to_models_append [of xs "[r] @ ys"] rows_to_models_append [of "[r]" ys]
    by (simp add: rows_to_models_append)
next
  assume "(r ''id'' = Undefined \<and> r ''ID'' = Undefined) \<or> (r ''name'' = Undefined \<and> r ''Name'' = Undefined)"
  then have "trim (first_alias r ''id'' ''ID'') = [] \<or> trim (first_alias r ''name'' ''Name'') = []"
    by (auto simp: first_alias_absent trim_def)
  then have "rows_to_models [r] = []"
    by (auto simp: rows_to_models_def id_field_row_to_model name_row_to_model)
  then show "rows_to_models (xs @ r # ys) = rows_to_models (xs @ ys)"
    using rows_to_models_append [of xs "[r] @ ys"] rows_to_models_append [of "[r]" ys]
    by (simp add: rows_to_models_append)
qed

text \<open>
  A sheet of three rows, the second with a blank \<open>id\<close>: two entities come out, and the
  second row, like a row without any cell, leaves the result as it is without it.
\<close>

theorem rows_without_id_or_name_discarded_witness:
  "map id_field (getModelsFromGoogleSheets live_config example_world) = [ascii ''a1'', ascii ''c3'']
   \<and> [] \<notin> set (map id_field (getModelsFromGoogleSheets live_config example_world))
   \<and> [] \<notin> set (map name (getModelsFromGoogleSheets live_config example_world))
   \<and> trim (first_alias blank_row ''id'' ''ID'') = []
   \<and> rows_to_models ([good_row] @ blank_row # [bare_row]) = rows_to_models ([good_row] @ [bare_row])
   \<and> empty_row ''id'' = Undefined \<and> empty_row ''ID'' = Undefined
   \<and> rows_to_models ([good_row] @ empty_row # [bare_row]) = rows_to_models ([good_row] @ [bare_row])"
proof -
  have a: "map id_field (getModelsFromGoogleSheets live_config example_world) = [ascii ''a1'', ascii ''c3'']"
    by (simp add: getModelsFromGoogleSheets_def live_config_def CONFIG_def js_or_def read_live_def
        example_world_def example_doc_def rows_to_models_def id_field_row_to_model
        name_row_to_model first_alias_def good_row_def blank_row_def bare_row_def empty_row_def
        trim_def is_ws_def ascii_def)
  have b: "trim (first_alias blank_row ''id'' ''ID'') = []"
    by (simp add: first_alias_def blank_row_def empty_row_def trim_def is_ws_def ascii_def)
  have c: "empty_row ''id'' = Undefined \<and> empty_row ''ID'' = Undefined"
    by (simp add: empty_row_def)
  show ?thesis
    using a b c
      rows_without_id_or_name_discarded [of live_config example_world blank_row "[good_row]" "[bare_row]"]
      rows_without_id_or_name_discarded [of live_config example_world empty_row "[good_row]" "[bare_row]"]
    by auto
qed

text \<open>
  C9, as stated, fails: a \<open>height\<close> cell with a space on each side reaches the entity with
  both spaces.
\<close>

theorem descriptive_fields_not_trimmed_counterexample:
  "good_row ''height'' = Str (ascii '' 175 '')
   \<and> height (row_to_model good_row) = Str (ascii '' 175 '')
   \<and> trim (ascii '' 175 '') = ascii ''175''
   \<and> height (row_to_model good_row) \<noteq> Str (trim (ascii '' 175 ''))"
  by (simp add: row_to_model_def Let_def js_or_def good_row_def empty_row_def trim_def is_ws_def
      ascii_def)

text \<open>
  C9, amended. For every raw row, \<open>id\<close> and \<open>name\<close> are the trimmed text of their first
  non-empty header alias, so they neither begin nor end with whitespace; \<open>height\<close>,
  \<open>measurements\<close>, \<open>city\<close>, \<open>category\<close> and \<open>bio\<close> are the text of their first
  non-empty header alias as it stands, untrimmed; a field absent under both aliases becomes
  the empty text, and no row makes the conversion fail.
\<close>

theorem id_and_name_trimmed_other_fields_copied:
  "id_field (row_to_model r) = trim (first_alias r ''id'' ''ID'')
   \<and> name (row_to_model r) = trim (first_alias r ''name'' ''Name'')
   \<and> (id_field (row_to_model r) \<noteq> [] \<longrightarrow>
        \<not> is_ws (hd (id_field (row_to_model r))) \<and> \<not> is_ws (last (id_field (row_to_model r))))
   \<and> (name (row_to_model r) \<noteq> [] \<longrightarrow>
        \<not> is_ws (hd (name (row_to_model r))) \<and> \<not> is_ws (last (name (row_to_model r))))
   \<and> height (row_to_model r) = Str (first_alias r ''height'' ''Height'')
   \<and> measurements (row_to_model r) = Str (first_alias r ''measurements'' ''Measurements'')
   \<and> city (row_to_model r) = Str (first_alias r ''city'' ''City'')
   \<and> category (row_to_model r) = Str (first_alias r ''category'' ''Category'')
   \<and> bio (row_to_model r) = Str (first_alias r ''bio'' ''Bio'')
   \<and> (r ''id'' = Undefined \<and> r ''ID'' = Undefined \<longrightarrow> id_field (row_to_model r) = [])
   \<and> (r ''name'' = Undefined \<and> r ''Name'' = Undefined \<longrightarrow> name (row_to_model r) = [])
   \<and> (r ''height'' = Undefined \<and> r ''Height'' = Undefined \<longrightarrow>
        height (row_to_model r) = Str [])
   \<and> (r ''measurements'' = Undefined \<and> r ''Measurements'' = Undefined \<longrightarrow>
        measurements (row_to_model r) = Str [])
   \<and> (r ''city'' = Undefined \<and> r ''City'' = Undefined \<longrightarrow> city (row_to_model r) = Str [])
   \<and> (r ''category'' = Undefined \<and> r ''Category'' = Undefined \<longrightarrow>
        category (row_to_model r) = Str [])
   \<and> (r ''bio'' = Undefined \<and> r ''Bio'' = Undefined \<longrightarrow> bio (row_to_model r) = Str [])"
proof -
  have rest: "height (row_to_model r) = Str (first_alias r ''height'' ''Height'')"
    "measurements (row_to_model r) = Str (first_alias r ''measurements'' ''Measurements'')"
    "city (row_to_model r) = Str (first_alias r ''city'' ''City'')"
    "category (row_to_model r) = Str (first_alias r ''category'' ''Category'')"
    "bio (row_to_model r) = Str (first_alias r ''bio'' ''Bio'')"
    by (simp_all add: row_to_model_def Let_def js_or_aliases)
  have empty: "trim [] = []"
    by (simp add: trim_def)
  show ?thesis
    using hd_trim [of "first_alias r ''id'' ''ID''"] last_trim [of "first_alias r ''id'' ''ID''"]
      hd_trim [of "first_alias r ''name'' ''Name''"] last_trim [of "first_alias r ''name'' ''Name''"]
    by (simp add: rest id_field_row_to_model name_row_to_model first_alias_absent empty)
qed

text \<open>
  The amended statement at a row with a padded \<open>id\<close>, a padded \<open>height\<close> and no
  \<open>city\<close>, and at the row without any cell.
\<close>

theorem id_and_name_trimmed_other_fields_copied_witness:
  "id_field (row_to_model good_row) = ascii ''a1''
   \<and> name (row_to_model good_row) = ascii ''Ann''
   \<and> \<not> is_ws (hd (id_field (row_to_model good_row)))
   \<and> \<not> is_ws (last (name (row_to_model good_row)))
   \<and> height (row_to_model good_row) = Str (ascii '' 175 '')
   \<and> good_row ''city'' = Undefined \<and> good_row ''City'' = Undefined
   \<and> city (row_to_model good_row) = Str []
   \<and> row_to_model empty_row
       = \<lparr>id_field = [], name = [], height = Str [], measurements = Str [], city = Str [],
          category = Str [], bio = Str [], is_available = True, photos = []\<rparr>"
proof -
  have a: "trim (first_alias good_row ''id'' ''ID'') = ascii ''a1''"
    "trim (first_alias good_row ''name'' ''Name'') = ascii ''Ann''"
    "first_alias good_row ''height'' ''Height'' = ascii '' 175 ''"
    "good_row ''city'' = Undefined" "good_row ''City'' = Undefined"
    by (simp_all add: first_alias_def good_row_def empty_row_def trim_def is_ws_def ascii_def)
  have b: "ascii ''a1'' \<noteq> []" "ascii ''Ann'' \<noteq> []"
    by (simp_all add: ascii_def)
  have g: "id_field (row_to_model good_row) = ascii ''a1''
   \<and> name (row_to_model good_row) = ascii ''Ann''
   \<and> \<not> is_ws (hd (id_field (row_to_model good_row)))
   \<and> \<not> is_ws (last (name (row_to_model good_row)))
   \<and> height (row_to_model good_row) = Str (ascii '' 175 '')
   \<and> city (row_to_model good_row) = Str []"
    using a b id_and_name_trimmed_other_fields_copied [of good_row]
    by (elim conjE) simp
  have u: "empty_row k = Undefined" for k
    by (simp add: empty_row_def)
  have e: "id_field (row_to_model empty_row) = [] \<and> name (row_to_model empty_row) = []
    \<and> height (row_to_model empty_row) = Str [] \<and> measurements (row_to_model empty_row) = Str []
    \<and> city (row_to_model empty_row) = Str [] \<and> category (row_to_model empty_row) = Str []
    \<and> bio (row_to_model empty_row) = Str []"
    using id_and_name_trimmed_other_fields_copied [of empty_row]
    by (elim conjE) (simp add: u)
  have o: "is_available (row_to_model empty_row) = True \<and> photos (row_to_model empty_row) = []"
    by (simp add: row_to_model_def Let_def js_or_def u)
  have "row_to_model empty_row
       = \<lparr>id_field = [], name = [], height = Str [], measurements = Str [], city = Str [],
          category = Str [], bio = Str [], is_available = True, photos = []\<rparr>"
    using e o by (cases "row_to_model empty_row") simp
  then show ?thesis
    using a g by (elim conjE) simp
qed

text \<open>
  C4. With no photo folder configured, an entity without photos leaves the photo step with
  exactly two photos, each of them the placeholder address
  \<^verbatim>\<open>https://picsum.photos/id/N/800/1000\<close> for a number \<open>N\<close> from 0 to 999. Each draw of
  \<^verbatim>\<open>Math.random\<close> is a double from 0 (included) to 1 (excluded).
\<close>

theorem placeholder_photos_assigned:
  assumes "\<not> truthy (YANDEX_DISK_FOLDER cfg)"
    and "photos m = []"
    and "\<forall>j. is_double (Math_random w j) \<and> double_value (Math_random w j) < 1"
  shows "length (photos (fst (resolve_photos_step cfg w k m))) = 2
    \<and> (\<forall>u \<in> set (photos (fst (resolve_photos_step cfg w k m))).
         \<exists>n\<le>999. u = ascii ''https://picsum.photos/id/'' @ decimal n @ ascii ''/800/1000'')"
proof -
  define a where "a = Math_floor (double_times (Math_random w k) (1000, 0))"
  define b where "b = Math_floor (double_times (Math_random w (k + 1)) (1000, 0))"
  have ra: "0 \<le> a \<and> a \<le> 999"
    unfolding a_def using assms(3) by (intro floor_random_times_1000) auto
  have rb: "0 \<le> b \<and> b \<le> 999"
    unfolding b_def using assms(3) by (intro floor_random_times_1000) auto
  have ph: "photos (fst (resolve_photos_step cfg w k m)) = [placeholder_url a, placeholder_url b]"
    using assms(1,2) by (simp add: resolve_photos_step_def getPhotosForModel_def a_def b_def)
  have url: "\<exists>n\<le>999. placeholder_url i = ascii ''https://picsum.photos/id/'' @ decimal n @ ascii ''/800/1000''"
    if "0 \<le> i \<and> i \<le> 999" for i
    by (rule exI [of _ "nat i"]) (use that in \<open>simp add: placeholder_url_def Number_toString_def nat_le_iff\<close>)
  show ?thesis using url [OF ra] url [OF rb] by (simp add: ph)
qed

text \<open>
  The step at three draws: zero, the double \<open>4494592428115755 \<cdot> 2\<^sup>-\<^sup>5\<^sup>2\<close> (which is the
  double written 0.998, and whose product with 1000 rounds up to 998), and the largest
  double below 1 (whose product with 1000 rounds to a double below 1000).
\<close>

theorem placeholder_photos_assigned_witness:
  "\<not> truthy (YANDEX_DISK_FOLDER live_config)
   \<and> photos (row_to_model bare_row) = []
   \<and> (\<forall>j. is_double (Math_random example_world j) \<and> double_value (Math_random example_world j) < 1)
   \<and> photos (fst (resolve_photos_step live_config example_world 0 (row_to_model bare_row)))
       = [ascii ''https://picsum.photos/id/0/800/1000'', ascii ''https://picsum.photos/id/998/800/1000'']
   \<and> photos (fst (resolve_photos_step live_config example_world 1 (row_to_model bare_row)))
       = [ascii ''https://picsum.photos/id/998/800/1000'', ascii ''https://picsum.photos/id/999/800/1000'']
   \<and> length (photos (fst (resolve_photos_step live_config example_world 0 (row_to_model bare_row)))) = 2
   \<and> (\<exists>n\<le>999. photos (fst (resolve_photos_step live_config example_world 0 (row_to_model bare_row))) ! 0
         = ascii ''https://picsum.photos/id/'' @ decimal n @ ascii ''/800/1000'')
   \<and> (\<exists>n\<le>999. photos (fst (resolve_photos_step live_config example_world 0 (row_to_model bare_row))) ! 1
         = ascii ''https://picsum.photos/id/'' @ decimal n @ ascii ''/800/1000'')
   \<and> length (photos (fst (resolve_photos_step live_config example_world 1 (row_to_model bare_row)))) = 2
   \<and> (\<exists>n\<le>999. photos (fst (resolve_photos_step live_config example_world 1 (row_to_model bare_row))) ! 1
         = ascii ''https://picsum.photos/id/'' @ decimal n @ ascii ''/800/1000'')"
proof -
  have a: "\<not> truthy (YANDEX_DISK_FOLDER live_config)"
    by (simp add: live_config_def CONFIG_def js_or_def)
  have b: "photos (row_to_model bare_row) = []"
    by (simp add: row_to_model_def Let_def js_or_def bare_row_def empty_row_def)
  have c: "\<forall>j. is_double (Math_random example_world j) \<and> double_value (Math_random example_world j) < 1"
    by (simp add: example_world_def is_double_def double_value_def)
  have r: "Math_random example_world 0 = (0, 0)"
    "Math_random example_world (0 + 1) = (4494592428115755, - 52)"
    "Math_random example_world 1 = (4494592428115755, - 52)"
    "Math_random example_world (1 + 1) = (9007199254740991, - 53)"
    "Math_random example_world (Suc 0) = (4494592428115755, - 52)"
    "Math_random example_world 2 = (9007199254740991, - 53)"
    "Math_random example_world (Suc (Suc 0)) = (9007199254740991, - 53)"
    by (simp_all add: example_world_def)
  have f: "Math_floor (double_times (0, 0) (1000, 0)) = 0"
    "Math_floor (double_times (4494592428115755, - 52) (1000, 0)) = 998"
    "Math_floor (double_times (9007199254740991, - 53) (1000, 0)) = 999"
    by (simp_all add: double_times_def round_double_def Math_floor_def bit_length.simps Let_def)
  have u: "placeholder_url 0 = ascii ''https://picsum.photos/id/0/800/1000''"
    "placeholder_url 998 = ascii ''https://picsum.photos/id/998/800/1000''"
    "placeholder_url 999 = ascii ''https://picsum.photos/id/999/800/1000''"
    by (simp_all add: placeholder_url_def Number_toString_def ascii_def)
  have d0: "photos (fst (resolve_photos_step live_config example_world 0 (row_to_model bare_row)))
       = [ascii ''https://picsum.photos/id/0/800/1000'', ascii ''https://picsum.photos/id/998/800/1000'']"
    using a b by (simp add: resolve_photos_step_def getPhotosForModel_def r f u)
  have d1: "photos (fst (resolve_photos_step live_config example_world 1 (row_to_model bare_row)))
       = [ascii ''https://picsum.photos/id/998/800/1000'', ascii ''https://picsum.photos/id/999/800/1000'']"
    using a b by (simp add: resolve_photos_step_def getPhotosForModel_def r f u)
  note t0 = placeholder_photos_assigned [OF a b c, of 0]
  note t1 = placeholder_photos_assigned [OF a b c, of 1]
  have e0: "length (photos (fst (resolve_photos_step live_config example_world 0 (row_to_model bare_row)))) = 2
   \<and> (\<exists>n\<le>999. photos (fst (resolve_photos_step live_config example_world 0 (row_to_model bare_row))) ! 0
         = ascii ''https://picsum.photos/id/'' @ decimal n @ ascii ''/800/1000'')
   \<and> (\<exists>n\<le>999. photos (fst (resolve_photos_step live_config example_world 0 (row_to_model bare_row))) ! 1
         = ascii ''https://picsum.photos/id/'' @ decimal n @ ascii ''/800/1000'')"
    using t0 by (simp add: d0)
  have e1: "length (photos (fst (resolve_photos_step live_config example_world 1 (row_to_model bare_row)))) = 2
   \<and> (\<exists>n\<le>999. photos (fst (resolve_photos_step live_config example_world 1 (row_to_model bare_row))) ! 1
         = ascii ''https://picsum.photos/id/'' @ decimal n @ ascii ''/800/1000'')"
    using t1 by (simp add: d1)
  show ?thesis
    using a b c d0 d1 e0 e1 by (elim conjE) (intro conjI; assumption)
qed

text \<open>
  C5. The statistics of an entity sequence: \<open>totalModels\<close> is its length,
  \<open>modelsWithPhotos\<close> the number of its entities with at least one photo, \<open>totalPhotos\<close>
  the sum of the photo counts; for three entities of which exactly two have photos, two and
  three of them, they are 3, 2 and 5. The statistics a run returns are those of the entity
  sequence it has written.
\<close>

theorem statistics_count_entities_and_photos:
  "totalModels (compute_stats w ms) = length ms
   \<and> modelsWithPhotos (compute_stats w ms) = card {i. i < length ms \<and> photos (ms ! i) \<noteq> []}
   \<and> totalPhotos (compute_stats w ms) = sum_list (map (\<lambda>m. length (photos m)) ms)
   \<and> (length ms = 3 \<and> card {i. i < length ms \<and> photos (ms ! i) \<noteq> []} = 2
        \<and> (\<exists>m\<in>set ms. length (photos m) = 2) \<and> (\<exists>m\<in>set ms. length (photos m) = 3)
       \<longrightarrow> totalModels (compute_stats w ms) = 3
           \<and> modelsWithPhotos (compute_stats w ms) = 2
           \<and> totalPhotos (compute_stats w ms) = 5)
   \<and> (syncModels cfg w = Inr (res, ops) \<longrightarrow>
        success res
        \<and> (\<exists>final. last ops = WriteFile (JSON_OUTPUT_PATH cfg) final
                    \<and> stats_of res = compute_stats w final))"
proof -
  have r: "success res \<and> (\<exists>final. last ops = WriteFile (JSON_OUTPUT_PATH cfg) final
                    \<and> stats_of res = compute_stats w final)"
    if "syncModels cfg w = Inr (res, ops)"
    using that by (auto simp: syncModels_def Let_def split: sum.splits dest: save_last_op)
  have n: "totalModels (compute_stats w ms) = length ms"
    by (simp add: compute_stats_def)
  have c: "modelsWithPhotos (compute_stats w ms) = card {i. i < length ms \<and> photos (ms ! i) \<noteq> []}"
    by (simp add: compute_stats_def length_filter_conv_card)
  have c': "modelsWithPhotos (compute_stats w ms) = length (filter (\<lambda>m. length (photos m) > 0) ms)"
    by (simp add: compute_stats_def)
  have p: "totalPhotos (compute_stats w ms) = sum_list (map (\<lambda>m. length (photos m)) ms)"
    by (simp add: compute_stats_def foldl_photos)
  have s: "totalPhotos (compute_stats w ms) = 5"
    if "length ms = 3" "card {i. i < length ms \<and> photos (ms ! i) \<noteq> []} = 2"
       "\<exists>m\<in>set ms. length (photos m) = 2" "\<exists>m\<in>set ms. length (photos m) = 3"
    using three_entities [of ms] that c c' p by simp
  show ?thesis
  proof (intro conjI impI)
    assume h: "length ms = 3 \<and> card {i. i < length ms \<and> photos (ms ! i) \<noteq> []} = 2
        \<and> (\<exists>m\<in>set ms. length (photos m) = 2) \<and> (\<exists>m\<in>set ms. length (photos m) = 3)"
    from h have h1: "length ms = 3"
      and h2: "card {i. i < length ms \<and> photos (ms ! i) \<noteq> []} = 2"
      by blast+
    show "totalModels (compute_stats w ms) = 3" by (simp only: n h1)
    show "modelsWithPhotos (compute_stats w ms) = 2" by (simp only: c h2)
    show "totalPhotos (compute_stats w ms) = 5" using s h by blast
  next
    assume "syncModels cfg w = Inr (res, ops)"
    then show "success res" "\<exists>final. last ops = WriteFile (JSON_OUTPUT_PATH cfg) final
                    \<and> stats_of res = compute_stats w final"
      using r by blast+
  qed (rule n c p)+
qed

text \<open>
  Three entities with no, two and three photos, and the run on the sample data.
\<close>

theorem statistics_count_entities_and_photos_witness:
  "length three_models = 3
   \<and> card {i. i < length three_models \<and> photos (three_models ! i) \<noteq> []} = 2
   \<and> (\<exists>m\<in>set three_models. length (photos m) = 2) \<and> (\<exists>m\<in>set three_models. length (photos m) = 3)
   \<and> totalModels (compute_stats example_world three_models) = 3
   \<and> modelsWithPhotos (compute_stats example_world three_models) = 2
   \<and> totalPhotos (compute_stats example_world three_models) = 5
   \<and> syncModels offline_config example_world
       = Inr (\<lparr>success = True, stats_of = compute_stats example_world getSampleData\<rparr>,
              [Mkdir [ascii ''app'', ascii ''data''],
               WriteFile [ascii ''app'', ascii ''data'', ascii ''models.json''] getSampleData])
   \<and> stats_of \<lparr>success = True, stats_of = compute_stats example_world getSampleData\<rparr>
       = \<lparr>totalModels = 2, modelsWithPhotos = 2, totalPhotos = 4,
          timestamp = ascii ''2024-01-01T00:00:00.000Z''\<rparr>"
proof -
  have g: "getModelsFromGoogleSheets offline_config example_world = getSampleData"
    by (simp add: getModelsFromGoogleSheets_def offline_config_def CONFIG_def js_or_def)
  have sv: "saveModelsToJSON offline_config example_world getSampleData
      = Inr [Mkdir [ascii ''app'', ascii ''data''],
             WriteFile [ascii ''app'', ascii ''data'', ascii ''models.json''] getSampleData]"
    by (simp add: saveModelsToJSON_def dirname_def offline_config_def CONFIG_def example_world_def)
  have run: "syncModels offline_config example_world
       = Inr (\<lparr>success = True, stats_of = compute_stats example_world getSampleData\<rparr>,
              [Mkdir [ascii ''app'', ascii ''data''],
               WriteFile [ascii ''app'', ascii ''data'', ascii ''models.json''] getSampleData])"
    by (simp add: syncModels_def Let_def g loop_sample_data sv)
  have st: "compute_stats example_world getSampleData
       = \<lparr>totalModels = 2, modelsWithPhotos = 2, totalPhotos = 4,
          timestamp = ascii ''2024-01-01T00:00:00.000Z''\<rparr>"
    by (simp add: compute_stats_def getSampleData_def example_world_def)
  have ph: "map photos three_models =
      [[], [ascii ''x.jpg'', ascii ''y.jpg''], [ascii ''1.png'', ascii ''2.png'', ascii ''3.png'']]"
    by (simp add: three_models_def row_to_model_def Let_def js_or_def good_row_def bare_row_def
        empty_row_def trim_def is_ws_def ascii_def)
  have l: "length three_models = 3" by (simp add: three_models_def)
  have f: "length (filter (\<lambda>m. photos m \<noteq> []) three_models) = 2"
    using ph by (auto simp: three_models_def)
  have c: "card {i. i < length three_models \<and> photos (three_models ! i) \<noteq> []} = 2"
    using f by (simp add: length_filter_conv_card)
  have e2: "\<exists>m\<in>set three_models. length (photos m) = 2"
    using ph by (auto simp: three_models_def)
  have e3: "\<exists>m\<in>set three_models. length (photos m) = 3"
    using ph by (auto simp: three_models_def)
  note t = statistics_count_entities_and_photos [of example_world three_models offline_config
      "\<lparr>success = True, stats_of = compute_stats example_world getSampleData\<rparr>"
      "[Mkdir [ascii ''app'', ascii ''data''],
        WriteFile [ascii ''app'', ascii ''data'', ascii ''models.json''] getSampleData]"]
  have t3: "totalModels (compute_stats example_world three_models) = 3
     \<and> modelsWithPhotos (compute_stats example_world three_models) = 2
     \<and> totalPhotos (compute_stats example_world three_models) = 5"
    using t l c e2 e3 by blast
  show ?thesis
    using l c e2 e3 t3 run st by simp
qed

text \<open>
  C6. The photo step leaves an entity that has photos as it is, and makes no draw for it;
  a second step after the first gives the same photos again.
\<close>

theorem populated_entity_left_unchanged:
  "photos m \<noteq> [] \<longrightarrow>
     resolve_photos_step cfg w k m = (m, k)
     \<and> photos (fst (resolve_photos_step cfg w k m)) = photos m
     \<and> photos (fst (resolve_photos_step cfg w k' (fst (resolve_photos_step cfg w k m))))
         = photos (fst (resolve_photos_step cfg w k m))"
  by (simp add: resolve_photos_step_def)

text \<open>
  The step, once and twice, at an entity with two photos.
\<close>

theorem populated_entity_left_unchanged_witness:
  "photos (row_to_model good_row) \<noteq> []
   \<and> resolve_photos_step live_config example_world 0 (row_to_model good_row) = (row_to_model good_row, 0)
   \<and> photos (fst (resolve_photos_step live_config example_world 2
        (fst (resolve_photos_step live_config example_world 0 (row_to_model good_row)))))
      = [ascii ''x.jpg'', ascii ''y.jpg'']"
proof -
  have a: "photos (row_to_model good_row) = [ascii ''x.jpg'', ascii ''y.jpg'']"
    by (simp add: row_to_model_def Let_def js_or_def good_row_def empty_row_def trim_def
        is_ws_def ascii_def)
  show ?thesis
    using a populated_entity_left_unchanged [of "row_to_model good_row" live_config example_world 0 2]
    by auto
qed

end
